theory Spec2Isabelle
  imports Complex_Main
begin

section \<open>Values, errors and array access\<close>

text \<open>
  The integration core of \<open>utils.py\<close> works on NumPy arrays of float64. A position or a
  velocity is an array of shape (2,), modelled as a pair of reals; a trajectory buffer is
  an array of shape (N, 2), modelled as a list of such pairs. A finite float64 is the
  real number it denotes; the special values of a NumPy scalar are the further
  constructors of \<open>npfloat\<close> below.

  The steppers are expressions in \<open>+\<close>, \<open>*\<close> and \<open>/\<close> that are stated as such, so
  there the operations are those of the reals. Where a result of float64 arithmetic
  decides a special value, an index or a length (in \<open>acc_fn\<close>, \<open>compute_aphelion\<close> and
  \<open>get_time_settings\<close>), the function has two forms: one with the float64 operations as
  parameters (\<open>acc_fn_with\<close>, \<open>compute_aphelion_with\<close>, \<open>get_time_settings_with\<close>),
  which is the code for whatever these operations compute, and its instance at the
  exact operations of the reals, which is the code wherever float64 computes exactly.

  Python exceptions are values of the type \<open>error\<close>.
\<close>

datatype error =
    ValueError string
  | IndexError
  | KeyError string
  | ZeroStepError

type_synonym vec = "real \<times> real"

text \<open>\<open>a + b\<close> on two arrays of shape (2,).\<close>

definition vadd :: "vec \<Rightarrow> vec \<Rightarrow> vec" where
  "vadd a b = (fst a + fst b, snd a + snd b)"

text \<open>\<open>a * c\<close>: an array times a scalar.\<close>

definition vmul :: "vec \<Rightarrow> real \<Rightarrow> vec" where
  "vmul a c = (fst a * c, snd a * c)"

text \<open>\<open>c * a\<close>: a scalar times an array.\<close>

definition smul :: "real \<Rightarrow> vec \<Rightarrow> vec" where
  "smul c a = (c * fst a, c * snd a)"

text \<open>
  The Euclidean norm of one array of shape (2,). \<open>np.linalg.norm\<close> computes its
  float64 rounding: the same number wherever the squares, their sum and the root are
  representable.
\<close>

definition norm2 :: "vec \<Rightarrow> real" where
  "norm2 a = sqrt ((fst a)\<^sup>2 + (snd a)\<^sup>2)"

text \<open>
  \<open>xs[i]\<close> and \<open>xs[i] = x\<close> for an index \<open>i \<ge> 0\<close>: out of range is an IndexError.
\<close>

definition getitem :: "'a list \<Rightarrow> nat \<Rightarrow> error + 'a" where
  "getitem xs i = (if i < length xs then Inr (xs ! i) else Inl IndexError)"

definition setitem :: "'a list \<Rightarrow> nat \<Rightarrow> 'a \<Rightarrow> error + 'a list" where
  "setitem xs i x = (if i < length xs then Inr (xs[i := x]) else Inl IndexError)"

section \<open>Pre-allocated trajectory buffers\<close>

text \<open>
  \<open>initialize_arrays(r0, v0, t)\<close>: two zero arrays of shape (len(t), 2), with row 0 set to
  the initial state. On an empty \<open>t\<close> the assignment \<open>r[0] = r0\<close> raises IndexError.
\<close>

definition initialize_arrays :: "vec \<Rightarrow> vec \<Rightarrow> real list \<Rightarrow> error + (vec list \<times> vec list)" where
  "initialize_arrays r0 v0 t =
     (let r = replicate (length t) (0, 0);
          v = replicate (length t) (0, 0)
      in case setitem r 0 r0 of
           Inl e \<Rightarrow> Inl e
         | Inr r \<Rightarrow>
             (case setitem v 0 v0 of
                Inl e \<Rightarrow> Inl e
              | Inr v \<Rightarrow> Inr (r, v)))"

section \<open>The two steppers\<close>

text \<open>
  A stepper takes the acceleration model as a parameter and only calls it; here it is
  any function from finite positions to finite accelerations.
\<close>

definition euler_step :: "vec \<Rightarrow> vec \<Rightarrow> real \<Rightarrow> (vec \<Rightarrow> vec) \<Rightarrow> vec \<times> vec" where
  "euler_step r_old v_old dt acc_fn =
     (let a_old = acc_fn r_old;
          r_new = vadd r_old (vmul v_old dt);
          v_new = vadd v_old (vmul a_old dt)
      in (r_new, v_new))"

definition rk4_step :: "vec \<Rightarrow> vec \<Rightarrow> real \<Rightarrow> (vec \<Rightarrow> vec) \<Rightarrow> vec \<times> vec" where
  "rk4_step r_old v_old dt acc_fn =
     (let k1_v = acc_fn r_old;
          k1_r = v_old;
          k2_r = vadd v_old (vmul k1_v (dt / 2));
          k2_v = acc_fn (vadd r_old (vmul k1_r (dt / 2)));
          k3_r = vadd v_old (vmul k2_v (dt / 2));
          k3_v = acc_fn (vadd r_old (vmul k2_r (dt / 2)));
          k4_r = vadd v_old (vmul k3_v dt);
          k4_v = acc_fn (vadd r_old (vmul k3_r dt));
          r_new = vadd r_old
                    (smul (dt / 6) (vadd (vadd (vadd k1_r (smul 2 k2_r)) (smul 2 k3_r)) k4_r));
          v_new = vadd v_old
                    (smul (dt / 6) (vadd (vadd (vadd k1_v (smul 2 k2_v)) (smul 2 k3_v)) k4_v))
      in (r_new, v_new))"

section \<open>The time-marching loop\<close>

text \<open>
  \<open>str.lower()\<close> on the method name: the ASCII capitals map to their small letters, every
  other byte stays. (Python also lowercases the cased letters beyond ASCII; the names
  \<open>euler\<close>, \<open>rk4\<close> and their spellings in capitals are ASCII.)
\<close>

definition lower_char :: "char \<Rightarrow> char" where
  "lower_char c =
     (let n = (of_char c :: nat)
      in if 65 \<le> n \<and> n \<le> 90 then char_of (n + 32) else c)"

definition lower :: "string \<Rightarrow> string" where
  "lower s = map lower_char s"

text \<open>The message of the ValueError raised for an unknown method name.\<close>

definition unknown_method_message :: "string \<Rightarrow> string" where
  "unknown_method_message method =
     ''Unknown numerical method '' @ [CHR 0x27] @ method @ [CHR 0x27] @
     ''. Use '' @ [CHR 0x27] @ ''euler'' @ [CHR 0x27] @ '' or '' @
     [CHR 0x27] @ ''rk4'' @ [CHR 0x27] @ ''.''"

text \<open>
  The statement \<open>r[i], v[i] = stepper(r[i-1], v[i-1], dt, acc_fn)\<close>. The right-hand side
  is evaluated first (reading \<open>r[i-1]\<close>, then \<open>v[i-1]\<close>); then \<open>r[i]\<close> is assigned,
  then \<open>v[i]\<close>. The buffers are mutated in place, so the state at the moment of an
  exception is part of the outcome.
\<close>

definition step_assign ::
  "(vec \<Rightarrow> vec \<Rightarrow> real \<Rightarrow> (vec \<Rightarrow> vec) \<Rightarrow> vec \<times> vec) \<Rightarrow> nat \<Rightarrow> real \<Rightarrow> (vec \<Rightarrow> vec) \<Rightarrow>
     vec list \<times> vec list \<Rightarrow> error option \<times> (vec list \<times> vec list)" where
  "step_assign stepper i dt acc_fn rv =
     (case rv of (r, v) \<Rightarrow>
        (case getitem r (i - 1) of
           Inl e \<Rightarrow> (Some e, (r, v))
         | Inr r_old \<Rightarrow>
             (case getitem v (i - 1) of
                Inl e \<Rightarrow> (Some e, (r, v))
              | Inr v_old \<Rightarrow>
                  (case stepper r_old v_old dt acc_fn of (r_new, v_new) \<Rightarrow>
                     (case setitem r i r_new of
                        Inl e \<Rightarrow> (Some e, (r, v))
                      | Inr r' \<Rightarrow>
                          (case setitem v i v_new of
                             Inl e \<Rightarrow> (Some e, (r', v))
                           | Inr v' \<Rightarrow> (None, (r', v'))))))))"

text \<open>
  The body of \<open>for i in range(1, len(r))\<close>, run over the list of indices. The method name
  is compared inside the body, once per iteration; an exception ends the loop.
\<close>

fun run_loop ::
  "string \<Rightarrow> real \<Rightarrow> (vec \<Rightarrow> vec) \<Rightarrow> nat list \<Rightarrow> vec list \<times> vec list \<Rightarrow>
     error option \<times> (vec list \<times> vec list)" where
  "run_loop method dt acc_fn [] rv = (None, rv)"
| "run_loop method dt acc_fn (i # is) rv =
     (if method = ''euler'' then
        (case step_assign euler_step i dt acc_fn rv of
           (Some e, rv') \<Rightarrow> (Some e, rv')
         | (None, rv') \<Rightarrow> run_loop method dt acc_fn is rv')
      else if method = ''rk4'' then
        (case step_assign rk4_step i dt acc_fn rv of
           (Some e, rv') \<Rightarrow> (Some e, rv')
         | (None, rv') \<Rightarrow> run_loop method dt acc_fn is rv')
      else (Some (ValueError (unknown_method_message method)), rv))"

text \<open>
  \<open>run_integration(method, r, v, dt, acc_fn)\<close>: returns the exception raised, if any,
  and the buffers as the call leaves them.
\<close>

definition run_integration ::
  "string \<Rightarrow> vec list \<Rightarrow> vec list \<Rightarrow> real \<Rightarrow> (vec \<Rightarrow> vec) \<Rightarrow>
     error option \<times> (vec list \<times> vec list)" where
  "run_integration method r v dt acc_fn =
     (let method = lower method
      in run_loop method dt acc_fn [1..<length r] (r, v))"

text \<open>
  The stepper that a method name selects once it is accepted: the \<open>euler\<close> branch is
  tested first, the \<open>rk4\<close> branch second.
\<close>

definition selected_stepper ::
  "string \<Rightarrow> vec \<Rightarrow> vec \<Rightarrow> real \<Rightarrow> (vec \<Rightarrow> vec) \<Rightarrow> vec \<times> vec" where
  "selected_stepper method = (if lower method = ''euler'' then euler_step else rk4_step)"

section \<open>The gravitational acceleration\<close>

text \<open>
  \<open>np.linalg.norm\<close> returns a NumPy float64, so \<open>G * M / norm**3\<close> is a NumPy
  division whatever the types of \<open>G\<close> and \<open>M\<close>: with a zero divisor it raises no
  ZeroDivisionError, it yields an infinity or NaN (and emits a RuntimeWarning). The
  values of such a scalar:
\<close>

datatype npfloat = Finite real | PosInf | NegInf | NaN

text \<open>A finite dividend over a finite, non-negative divisor.\<close>

definition np_divide :: "real \<Rightarrow> real \<Rightarrow> npfloat" where
  "np_divide x y =
     (if y \<noteq> 0 then Finite (x / y)
      else if 0 < x then PosInf
      else if x < 0 then NegInf
      else NaN)"

definition np_negative :: "npfloat \<Rightarrow> npfloat" where
  "np_negative c =
     (case c of
        Finite a \<Rightarrow> Finite (- a)
      | PosInf \<Rightarrow> NegInf
      | NegInf \<Rightarrow> PosInf
      | NaN \<Rightarrow> NaN)"

text \<open>The scalar factor times one finite entry of the array; infinity times zero is NaN.\<close>

definition np_multiply :: "npfloat \<Rightarrow> real \<Rightarrow> npfloat" where
  "np_multiply c x =
     (case c of
        Finite a \<Rightarrow> Finite (a * x)
      | PosInf \<Rightarrow> (if 0 < x then PosInf else if x < 0 then NegInf else NaN)
      | NegInf \<Rightarrow> (if 0 < x then NegInf else if x < 0 then PosInf else NaN)
      | NaN \<Rightarrow> NaN)"

text \<open>
  The closure \<open>acc_fn\<close> with \<open>G\<close> and \<open>M\<close> captured. No statement of it raises, so
  its outcome is always a value (\<open>Inr\<close>).
\<close>

definition acc_fn :: "real \<Rightarrow> real \<Rightarrow> vec \<Rightarrow> error + (npfloat \<times> npfloat)" where
  "acc_fn G M r_vec =
     (let norm = norm2 r_vec;
          c = np_negative (np_divide (G * M) (norm ^ 3))
      in Inr (np_multiply c (fst r_vec), np_multiply c (snd r_vec)))"

definition create_acceleration_fn :: "real \<Rightarrow> real \<Rightarrow> (vec \<Rightarrow> error + (npfloat \<times> npfloat))" where
  "create_acceleration_fn G M = acc_fn G M"

text \<open>
  The float64 operations of \<open>acc_fn\<close>, on finite operands: \<open>np.linalg.norm(r_vec)\<close>,
  \<open>norm**3\<close> (which underflows to zero on small norms), \<open>G * M\<close>, the quotient by a
  non-zero divisor and the product of a finite factor with an entry of \<open>r_vec\<close> (which
  both may overflow to an infinity).
\<close>

record f64_ops =
  op_norm :: "vec \<Rightarrow> real"
  op_cube :: "real \<Rightarrow> real"
  op_mul :: "real \<Rightarrow> real \<Rightarrow> real"
  op_div :: "real \<Rightarrow> real \<Rightarrow> npfloat"
  op_times :: "real \<Rightarrow> real \<Rightarrow> npfloat"

text \<open>The division and the product of NumPy, with their special cases as above.\<close>

definition np_divide_with :: "f64_ops \<Rightarrow> real \<Rightarrow> real \<Rightarrow> npfloat" where
  "np_divide_with ops x y =
     (if y \<noteq> 0 then op_div ops x y
      else if 0 < x then PosInf
      else if x < 0 then NegInf
      else NaN)"

definition np_multiply_with :: "f64_ops \<Rightarrow> npfloat \<Rightarrow> real \<Rightarrow> npfloat" where
  "np_multiply_with ops c x =
     (case c of
        Finite a \<Rightarrow> op_times ops a x
      | PosInf \<Rightarrow> (if 0 < x then PosInf else if x < 0 then NegInf else NaN)
      | NegInf \<Rightarrow> (if 0 < x then NegInf else if x < 0 then PosInf else NaN)
      | NaN \<Rightarrow> NaN)"

text \<open>The closure \<open>acc_fn\<close> over these operations.\<close>

definition acc_fn_with :: "f64_ops \<Rightarrow> real \<Rightarrow> real \<Rightarrow> vec \<Rightarrow> error + (npfloat \<times> npfloat)" where
  "acc_fn_with ops G M r_vec =
     (let norm = op_norm ops r_vec;
          c = np_negative (np_divide_with ops (op_mul ops G M) (op_cube ops norm))
      in Inr (np_multiply_with ops c (fst r_vec), np_multiply_with ops c (snd r_vec)))"

definition create_acceleration_fn_with ::
  "f64_ops \<Rightarrow> real \<Rightarrow> real \<Rightarrow> (vec \<Rightarrow> error + (npfloat \<times> npfloat))" where
  "create_acceleration_fn_with ops G M = acc_fn_with ops G M"

text \<open>The exact operations: those of float64 wherever it computes without rounding.\<close>

definition exact_ops :: f64_ops where
  "exact_ops =
     \<lparr>op_norm = norm2,
      op_cube = (\<lambda>x. x ^ 3),
      op_mul = (\<lambda>x y. x * y),
      op_div = (\<lambda>x y. Finite (x / y)),
      op_times = (\<lambda>a x. Finite (a * x))\<rparr>"

text \<open>
  The exact operations but for the underflow of \<open>norm**3\<close>: a cube of magnitude below
  \<open>2^-1075\<close>, half the least positive float64, is rounded to zero.
\<close>

definition underflow_ops :: f64_ops where
  "underflow_ops =
     \<lparr>op_norm = norm2,
      op_cube = (\<lambda>x. if \<bar>x ^ 3\<bar> < 1 / 2 ^ 1075 then 0 else x ^ 3),
      op_mul = (\<lambda>x y. x * y),
      op_div = (\<lambda>x y. Finite (x / y)),
      op_times = (\<lambda>a x. Finite (a * x))\<rparr>"

section \<open>Locating the aphelion\<close>

text \<open>
  \<open>np.argmax\<close> on a one-dimensional array: the index of the first occurrence of the
  maximum; a ValueError on an empty array.
\<close>

fun argmax_scan :: "real list \<Rightarrow> nat \<Rightarrow> nat \<Rightarrow> real \<Rightarrow> nat" where
  "argmax_scan [] i best_i best = best_i"
| "argmax_scan (y # ys) i best_i best =
     (if best < y then argmax_scan ys (Suc i) i y
      else argmax_scan ys (Suc i) best_i best)"

definition argmax :: "real list \<Rightarrow> error + nat" where
  "argmax xs =
     (case xs of
        [] \<Rightarrow> Inl (ValueError ''attempt to get argmax of an empty sequence'')
      | x # ys \<Rightarrow> Inr (argmax_scan ys 1 0 x))"

text \<open>
  \<open>compute_aphelion(r, v)\<close>. The slice \<open>distances[cutoff:]\<close> is \<open>drop cutoff\<close>: empty
  when the cutoff is past the end. \<open>int(len(r) * 0.05)\<close> truncates a non-negative
  product, so it is its floor; the float product and the exact one have the same
  integer part for every length below \<open>2^50\<close>. \<open>distances[idx_ap]\<close> and \<open>v[idx_ap]\<close>
  raise IndexError out of range.
\<close>

definition compute_aphelion :: "vec list \<Rightarrow> vec list \<Rightarrow> error + (real \<times> vec \<times> nat)" where
  "compute_aphelion r v =
     (let distances = map norm2 r
      in case argmax distances of
           Inl e \<Rightarrow> Inl e
         | Inr idx_ap \<Rightarrow>
             (case (if idx_ap = 0 then
                      (let cutoff = max 1 (nat \<lfloor>real (length r) * 0.05\<rfloor>)
                       in case argmax (drop cutoff distances) of
                            Inl e \<Rightarrow> Inl e
                          | Inr j \<Rightarrow> Inr (j + cutoff))
                    else Inr idx_ap) of
                Inl e \<Rightarrow> Inl e
              | Inr idx_ap \<Rightarrow>
                  (case getitem distances idx_ap of
                     Inl e \<Rightarrow> Inl e
                   | Inr pos_ap \<Rightarrow>
                       (case getitem v idx_ap of
                          Inl e \<Rightarrow> Inl e
                        | Inr vel_ap \<Rightarrow> Inr (pos_ap, vel_ap, idx_ap)))))"

text \<open>
  \<open>compute_aphelion\<close> over the distances as \<open>np.linalg.norm(r, axis=1)\<close> computes them,
  row by row.
\<close>

definition compute_aphelion_with ::
  "(vec \<Rightarrow> real) \<Rightarrow> vec list \<Rightarrow> vec list \<Rightarrow> error + (real \<times> vec \<times> nat)" where
  "compute_aphelion_with linalg_norm r v =
     (let distances = map linalg_norm r
      in case argmax distances of
           Inl e \<Rightarrow> Inl e
         | Inr idx_ap \<Rightarrow>
             (case (if idx_ap = 0 then
                      (let cutoff = max 1 (nat \<lfloor>real (length r) * 0.05\<rfloor>)
                       in case argmax (drop cutoff distances) of
                            Inl e \<Rightarrow> Inl e
                          | Inr j \<Rightarrow> Inr (j + cutoff))
                    else Inr idx_ap) of
                Inl e \<Rightarrow> Inl e
              | Inr idx_ap \<Rightarrow>
                  (case getitem distances idx_ap of
                     Inl e \<Rightarrow> Inl e
                   | Inr pos_ap \<Rightarrow>
                       (case getitem v idx_ap of
                          Inl e \<Rightarrow> Inl e
                        | Inr vel_ap \<Rightarrow> Inr (pos_ap, vel_ap, idx_ap)))))"

text \<open>
  What "the argmax" of a sequence means: an index of a largest entry, the first one
  where several entries are largest.
\<close>

definition is_first_argmax :: "real list \<Rightarrow> nat \<Rightarrow> bool" where
  "is_first_argmax xs k \<longleftrightarrow>
     k < length xs \<and> (\<forall>j < length xs. xs ! j \<le> xs ! k) \<and> (\<forall>j < k. xs ! j < xs ! k)"

section \<open>Time settings\<close>

text \<open>
  The configuration is a JSON object; the keys that \<open>get_time_settings\<close> reads are the
  fields below, \<open>None\<close> where the key is absent. The settings of the numerical method
  are a dictionary of their own.
\<close>

record config =
  numerical_method_settings :: "(string \<rightharpoonup> real) option"
  default_simulation_days :: "real option"

record planet_config =
  orbital_period_days :: "real option"

text \<open>
  \<open>np.arange(start, stop, step)\<close>: the values \<open>start + k * step\<close> for
  \<open>k < ceil((stop - start) / step)\<close>; a zero step is an error.
\<close>

definition arange :: "real \<Rightarrow> real \<Rightarrow> real \<Rightarrow> error + real list" where
  "arange start stop step =
     (if step = 0 then Inl ZeroStepError
      else Inr (map (\<lambda>k. start + real k * step) [0..<nat \<lceil>(stop - start) / step\<rceil>]))"

text \<open>
  \<open>cfg["numerical_method_settings"]["time_step"] if "numerical_method_settings" in cfg
  else 3600\<close>.
\<close>

definition time_step_of :: "config \<Rightarrow> error + real" where
  "time_step_of cfg =
     (case numerical_method_settings cfg of
        None \<Rightarrow> Inr 3600
      | Some settings \<Rightarrow>
          (case settings ''time_step'' of
             None \<Rightarrow> Inl (KeyError ''time_step'')
           | Some time_step \<Rightarrow> Inr time_step))"

text \<open>
  \<open>planet_cfg.get("orbital_period_days", cfg.get("default_simulation_days", 365))\<close>.
\<close>

definition sim_days_of :: "config \<Rightarrow> planet_config \<Rightarrow> real" where
  "sim_days_of cfg planet_cfg =
     (case orbital_period_days planet_cfg of
        Some days \<Rightarrow> days
      | None \<Rightarrow>
          (case default_simulation_days cfg of
             Some days \<Rightarrow> days
           | None \<Rightarrow> 365))"

definition get_time_settings :: "config \<Rightarrow> planet_config \<Rightarrow> error + (real \<times> real list)" where
  "get_time_settings cfg planet_cfg =
     (case time_step_of cfg of
        Inl e \<Rightarrow> Inl e
      | Inr time_step \<Rightarrow>
          (let sim_days = sim_days_of cfg planet_cfg;
               t_max = sim_days * 24 * 3600
           in case arange 0 t_max time_step of
                Inl e \<Rightarrow> Inl e
              | Inr t \<Rightarrow> Inr (time_step, t)))"

text \<open>
  The buffers of a run, as \<open>main.py\<close> creates them: the time grid of
  \<open>get_time_settings\<close>, then \<open>initialize_arrays\<close> on it.
\<close>

definition allocate_run ::
  "config \<Rightarrow> planet_config \<Rightarrow> vec \<Rightarrow> vec \<Rightarrow> error + (real \<times> real list \<times> vec list \<times> vec list)" where
  "allocate_run cfg planet_cfg r0 v0 =
     (case get_time_settings cfg planet_cfg of
        Inl e \<Rightarrow> Inl e
      | Inr (dt, t) \<Rightarrow>
          (case initialize_arrays r0 v0 t of
             Inl e \<Rightarrow> Inl e
           | Inr (r, v) \<Rightarrow> Inr (dt, t, r, v)))"

text \<open>
  The same three functions over Python's product and quotient as they are computed
  (exactly on integers, in float64 on floats). \<open>np.arange\<close> takes the ceiling of the
  computed quotient \<open>(stop - start) / step\<close>; its only call has \<open>start = 0\<close>, where
  \<open>stop - start\<close> is \<open>stop\<close>. Of the time grid only the length is ever used.
\<close>

definition arange_with ::
  "(real \<Rightarrow> real \<Rightarrow> real) \<Rightarrow> real \<Rightarrow> real \<Rightarrow> real \<Rightarrow> error + real list" where
  "arange_with truediv start stop step =
     (if step = 0 then Inl ZeroStepError
      else Inr (map (\<lambda>k. start + real k * step)
                  [0..<nat \<lceil>truediv (stop - start) step\<rceil>]))"

definition get_time_settings_with ::
  "(real \<Rightarrow> real \<Rightarrow> real) \<Rightarrow> (real \<Rightarrow> real \<Rightarrow> real) \<Rightarrow> config \<Rightarrow> planet_config \<Rightarrow>
     error + (real \<times> real list)" where
  "get_time_settings_with mul truediv cfg planet_cfg =
     (case time_step_of cfg of
        Inl e \<Rightarrow> Inl e
      | Inr time_step \<Rightarrow>
          (let sim_days = sim_days_of cfg planet_cfg;
               t_max = mul (mul sim_days 24) 3600
           in case arange_with truediv 0 t_max time_step of
                Inl e \<Rightarrow> Inl e
              | Inr t \<Rightarrow> Inr (time_step, t)))"

definition allocate_run_with ::
  "(real \<Rightarrow> real \<Rightarrow> real) \<Rightarrow> (real \<Rightarrow> real \<Rightarrow> real) \<Rightarrow> config \<Rightarrow> planet_config \<Rightarrow> vec \<Rightarrow> vec \<Rightarrow>
     error + (real \<times> real list \<times> vec list \<times> vec list)" where
  "allocate_run_with mul truediv cfg planet_cfg r0 v0 =
     (case get_time_settings_with mul truediv cfg planet_cfg of
        Inl e \<Rightarrow> Inl e
      | Inr (dt, t) \<Rightarrow>
          (case initialize_arrays r0 v0 t of
             Inl e \<Rightarrow> Inl e
           | Inr (r, v) \<Rightarrow> Inr (dt, t, r, v)))"

section \<open>The steppers compute the documented updates\<close>

text \<open>
  Claim C3. For every state \<open>(r, v)\<close>, every \<open>dt\<close> and every acceleration function
  \<open>a\<close>, \<open>euler_step\<close> returns \<open>(r + v * dt, v + a(r) * dt)\<close>, coordinate by coordinate;
  the acceleration enters only through its value at the position at the start of the
  step.
\<close>

theorem euler_step_formula:
  "euler_step r v dt a =
     ((fst r + fst v * dt, snd r + snd v * dt),
      (fst v + fst (a r) * dt, snd v + snd (a r) * dt))"
  by (simp add: euler_step_def vadd_def vmul_def Let_def)

theorem euler_step_formula_witness:
  "euler_step (1, 0) (0, 1) 2 (\<lambda>p. (- fst p, - snd p)) = ((1, 2), (- 2, 1))"
  using euler_step_formula [of "(1, 0)" "(0, 1)" 2 "\<lambda>p. (- fst p, - snd p)"]
  by simp

text \<open>
  Claim C2. For every state \<open>(r, v)\<close>, every \<open>dt\<close> and every acceleration function
  \<open>a\<close>, \<open>rk4_step\<close> returns the combination of the four slopes with the weights
  1 : 2 : 2 : 1 scaled by \<open>dt / 6\<close>, for the position and for the velocity, where the
  slopes are \<open>k1_v = a(r)\<close>, \<open>k1_r = v\<close>, \<open>k2_r = v + k1_v * dt / 2\<close>,
  \<open>k2_v = a(r + k1_r * dt / 2)\<close>, \<open>k3_r = v + k2_v * dt / 2\<close>,
  \<open>k3_v = a(r + k2_r * dt / 2)\<close>, \<open>k4_r = v + k3_v * dt\<close> and
  \<open>k4_v = a(r + k3_r * dt)\<close>: four evaluations of the acceleration.
\<close>

theorem rk4_step_formula:
  "rk4_step r v dt a =
     (let k1_v = a r;
          k1_r = v;
          k2_r = (fst v + fst k1_v * dt / 2, snd v + snd k1_v * dt / 2);
          k2_v = a (fst r + fst k1_r * dt / 2, snd r + snd k1_r * dt / 2);
          k3_r = (fst v + fst k2_v * dt / 2, snd v + snd k2_v * dt / 2);
          k3_v = a (fst r + fst k2_r * dt / 2, snd r + snd k2_r * dt / 2);
          k4_r = (fst v + fst k3_v * dt, snd v + snd k3_v * dt);
          k4_v = a (fst r + fst k3_r * dt, snd r + snd k3_r * dt)
      in ((fst r + (dt / 6) * (fst k1_r + 2 * fst k2_r + 2 * fst k3_r + fst k4_r),
           snd r + (dt / 6) * (snd k1_r + 2 * snd k2_r + 2 * snd k3_r + snd k4_r)),
          (fst v + (dt / 6) * (fst k1_v + 2 * fst k2_v + 2 * fst k3_v + fst k4_v),
           snd v + (dt / 6) * (snd k1_v + 2 * snd k2_v + 2 * snd k3_v + snd k4_v))))"
  by (simp add: rk4_step_def Let_def vadd_def vmul_def smul_def)

theorem rk4_step_formula_witness:
  "rk4_step (1, 0) (0, 1) 2 (\<lambda>p. (- fst p, - snd p)) = ((- 1 / 3, 2 / 3), (- 2 / 3, - 1 / 3))"
  using rk4_step_formula [of "(1, 0)" "(0, 1)" 2 "\<lambda>p. (- fst p, - snd p)"]
  by (simp add: Let_def)

section \<open>The loop fills the buffers step by step\<close>

lemma step_assign_in_range:
  assumes "1 \<le> i" and "i < length r" and "length v = length r"
  shows "step_assign stepper i dt a (r, v) =
           (None, (r[i := fst (stepper (r ! (i - 1)) (v ! (i - 1)) dt a)],
                   v[i := snd (stepper (r ! (i - 1)) (v ! (i - 1)) dt a)]))"
  using assms by (auto simp: step_assign_def getitem_def setitem_def split: prod.splits)

lemma run_loop_accepted:
  assumes "m = ''euler'' \<or> m = ''rk4''"
  shows "run_loop m dt a (i # is) rv =
     (case step_assign (if m = ''euler'' then euler_step else rk4_step) i dt a rv of
        (Some e, rv') \<Rightarrow> (Some e, rv')
      | (None, rv') \<Rightarrow> run_loop m dt a is rv')"
  using assms by auto

lemma run_loop_rejected:
  assumes "m \<noteq> ''euler''" and "m \<noteq> ''rk4''"
  shows "run_loop m dt a (i # is) rv = (Some (ValueError (unknown_method_message m)), rv)"
  using assms by simp

text \<open>
  The invariant of the loop from index \<open>k\<close> on: the entries below \<open>k\<close> stay, every
  entry from \<open>k\<close> on is one step from its predecessor.
\<close>

lemma run_loop_fills:
  assumes m: "m = ''euler'' \<or> m = ''rk4''"
    and "1 \<le> k" and "k \<le> n" and "length r = n" and "length v = n"
  shows "\<exists>r' v'. run_loop m dt a [k..<n] (r, v) = (None, (r', v'))
           \<and> length r' = n \<and> length v' = n
           \<and> (\<forall>j<k. r' ! j = r ! j \<and> v' ! j = v ! j)
           \<and> (\<forall>i. k \<le> i \<and> i < n \<longrightarrow>
                 (r' ! i, v' ! i) =
                   (if m = ''euler'' then euler_step else rk4_step) (r' ! (i - 1)) (v' ! (i - 1)) dt a)"
  using assms(2-)
proof (induction "n - k" arbitrary: k r v)
  case 0
  then have "[k..<n] = []" by simp
  with 0 show ?case by auto
next
  case (Suc d)
  let ?S = "if m = ''euler'' then euler_step else rk4_step"
  let ?p = "?S (r ! (k - 1)) (v ! (k - 1)) dt a"
  let ?r1 = "r[k := fst ?p]"
  let ?v1 = "v[k := snd ?p]"
  from Suc.hyps(2) have kn: "k < n" by simp
  then have upt: "[k..<n] = k # [Suc k..<n]" by (simp add: upt_conv_Cons)
  have sa: "step_assign ?S k dt a (r, v) = (None, (?r1, ?v1))"
    using step_assign_in_range [of k r v ?S dt a] Suc.prems kn by simp
  have "d = n - Suc k" using Suc.hyps(2) by simp
  moreover have "1 \<le> Suc k" "Suc k \<le> n" "length ?r1 = n" "length ?v1 = n"
    using kn Suc.prems by simp_all
  ultimately obtain r' v' where
    run: "run_loop m dt a [Suc k..<n] (?r1, ?v1) = (None, (r', v'))"
    and len: "length r' = n" "length v' = n"
    and keep: "\<forall>j<Suc k. r' ! j = ?r1 ! j \<and> v' ! j = ?v1 ! j"
    and steps: "\<forall>i. Suc k \<le> i \<and> i < n \<longrightarrow> (r' ! i, v' ! i) = ?S (r' ! (i - 1)) (v' ! (i - 1)) dt a"
    using Suc.hyps(1) [of "Suc k" ?r1 ?v1] by blast
  have whole: "run_loop m dt a [k..<n] (r, v) = (None, (r', v'))"
    using upt run_loop_accepted [OF m, of dt a k "[Suc k..<n]" "(r, v)"] sa run by simp
  have below: "\<forall>j<k. r' ! j = r ! j \<and> v' ! j = v ! j"
    using keep by (metis less_Suc_eq nat_neq_iff nth_list_update_neq)
  have at_k: "r' ! k = fst ?p" "v' ! k = snd ?p"
    using keep kn Suc.prems by simp_all
  have prev: "r' ! (k - 1) = r ! (k - 1)" "v' ! (k - 1) = v ! (k - 1)"
    using below Suc.prems(1) by simp_all
  have here: "(r' ! k, v' ! k) = ?S (r' ! (k - 1)) (v' ! (k - 1)) dt a"
    unfolding at_k prev by simp
  have "\<forall>i. k \<le> i \<and> i < n \<longrightarrow> (r' ! i, v' ! i) = ?S (r' ! (i - 1)) (v' ! (i - 1)) dt a"
  proof (intro allI impI)
    fix i assume "k \<le> i \<and> i < n"
    then consider "i = k" | "Suc k \<le> i \<and> i < n" by linarith
    then show "(r' ! i, v' ! i) = ?S (r' ! (i - 1)) (v' ! (i - 1)) dt a"
      using here steps by cases blast+
  qed
  with whole len below show ?case by blast
qed

lemma initialize_arrays_nonempty:
  assumes "t \<noteq> []"
  shows "initialize_arrays r0 v0 t =
           Inr ((replicate (length t) (0, 0))[0 := r0], (replicate (length t) (0, 0))[0 := v0])"
  using assms by (simp add: initialize_arrays_def setitem_def Let_def)

text \<open>
  Claim C1. For every initial state \<open>(r0, v0)\<close>, every time step \<open>dt\<close>, every time grid
  of \<open>N \<ge> 1\<close> samples and every method name that is \<open>euler\<close> or \<open>rk4\<close> once lowercased,
  \<open>run_integration\<close> on the buffers of \<open>initialize_arrays\<close> ends without an exception and
  leaves a trajectory of length \<open>N\<close> whose sample 0 is the initial state and whose every
  later sample \<open>i\<close> is one application of the selected stepper to sample \<open>i - 1\<close>.
\<close>

theorem run_integration_trajectory:
  assumes "t \<noteq> []" and "lower method = ''euler'' \<or> lower method = ''rk4''"
  shows "\<exists>r_init v_init r v.
           initialize_arrays r0 v0 t = Inr (r_init, v_init)
           \<and> run_integration method r_init v_init dt a = (None, (r, v))
           \<and> length r = length t \<and> length v = length t
           \<and> r ! 0 = r0 \<and> v ! 0 = v0
           \<and> (\<forall>i. 1 \<le> i \<and> i < length t \<longrightarrow>
                 (r ! i, v ! i) = selected_stepper method (r ! (i - 1)) (v ! (i - 1)) dt a)"
proof -
  let ?n = "length t"
  let ?r = "(replicate ?n (0, 0))[0 := r0]"
  let ?v = "(replicate ?n (0, 0))[0 := v0]"
  from assms(1) have n: "1 \<le> ?n" by (cases t) simp_all
  obtain r v where
    run: "run_loop (lower method) dt a [1..<?n] (?r, ?v) = (None, (r, v))"
    and len: "length r = ?n" "length v = ?n"
    and keep: "\<forall>j<1. r ! j = ?r ! j \<and> v ! j = ?v ! j"
    and steps: "\<forall>i. 1 \<le> i \<and> i < ?n \<longrightarrow>
       (r ! i, v ! i) = (if lower method = ''euler'' then euler_step else rk4_step)
                          (r ! (i - 1)) (v ! (i - 1)) dt a"
    using run_loop_fills [OF assms(2) _ n, of ?r ?v dt a] by auto
  have "run_integration method ?r ?v dt a = (None, (r, v))"
    using run by (simp add: run_integration_def)
  moreover have "r ! 0 = r0" "v ! 0 = v0" using keep assms(1) by simp_all
  ultimately show ?thesis
    using initialize_arrays_nonempty [OF assms(1)] len steps
    by (simp add: selected_stepper_def)
qed

theorem run_integration_trajectory_witness:
  "[0, 3600] \<noteq> ([] :: real list) \<and> lower ''RK4'' = ''rk4''
   \<and> (\<exists>r_init v_init r v.
           initialize_arrays (1, 0) (0, 1) [0, 3600] = Inr (r_init, v_init)
           \<and> run_integration ''RK4'' r_init v_init 2 (\<lambda>p. (- fst p, - snd p)) = (None, (r, v))
           \<and> length r = length [0 :: real, 3600] \<and> length v = length [0 :: real, 3600]
           \<and> r ! 0 = (1, 0) \<and> v ! 0 = (0, 1)
           \<and> (\<forall>i. 1 \<le> i \<and> i < length [0 :: real, 3600] \<longrightarrow>
                 (r ! i, v ! i) =
                   selected_stepper ''RK4'' (r ! (i - 1)) (v ! (i - 1)) 2 (\<lambda>p. (- fst p, - snd p))))"
proof -
  have h1: "[0, 3600] \<noteq> ([] :: real list)" by simp
  have h2: "lower ''RK4'' = ''rk4''" by code_simp
  then have h3: "lower ''RK4'' = ''euler'' \<or> lower ''RK4'' = ''rk4''" by simp
  show ?thesis
    by (intro conjI h1 h2 run_integration_trajectory [OF h1 h3])
qed

subsection \<open>Unknown method names\<close>

text \<open>
  On buffers of two samples or more the first iteration reaches the \<open>else\<close> branch: the
  ValueError names the lowercased method string and the two accepted values, and no
  entry of either buffer has been written.
\<close>

lemma run_integration_unknown_method:
  assumes "lower method \<noteq> ''euler''" and "lower method \<noteq> ''rk4''" and "2 \<le> length r"
  shows "run_integration method r v dt a =
           (Some (ValueError (unknown_method_message (lower method))), (r, v))"
proof -
  from assms(3) have "[1..<length r] = 1 # [Suc 1..<length r]"
    by (simp add: upt_conv_Cons)
  then show ?thesis
    using run_loop_rejected [OF assms(1,2)] by (simp add: run_integration_def)
qed

text \<open>
  On buffers of at most one sample \<open>range(1, len(r))\<close> is empty, the body with the
  comparison of the method name never runs, and the call returns normally whatever the
  method name is.
\<close>

lemma run_integration_short_buffer:
  assumes "length r \<le> 1"
  shows "run_integration method r v dt a = (None, (r, v))"
  using assms by (simp add: run_integration_def)

text \<open>
  Claim C6. For every method name that is neither \<open>euler\<close> nor \<open>rk4\<close> once lowercased
  and every buffer length \<open>N\<close>, \<open>run_integration\<close> is to fail with the error for an
  invalid method before any stepping, with no buffer entry mutated. The code: with the
  method name \<open>leapfrog\<close> and buffers of one sample, the call ends without any exception.
\<close>

theorem run_integration_unknown_method_short_buffer:
  "lower ''leapfrog'' = ''leapfrog'' \<and>
   run_integration ''leapfrog'' [(1, 0)] [(0, 1)] 3600 (\<lambda>p. (- fst p, - snd p)) =
     (None, ([(1, 0)], [(0, 1)]))"
proof -
  have "lower ''leapfrog'' = ''leapfrog''" by code_simp
  then show ?thesis by (simp add: run_integration_def)
qed

section \<open>The acceleration at a position\<close>

lemma norm2_zero_iff: "norm2 r = 0 \<longleftrightarrow> r = (0, 0)"
  by (cases r) (simp add: norm2_def)

lemma norm2_axis: "norm2 (x, 0) = \<bar>x\<bar>"
  by (simp add: norm2_def)

subsection \<open>The exact operations as an instance\<close>

lemma np_divide_exact: "np_divide_with exact_ops x y = np_divide x y"
  by (simp add: np_divide_with_def np_divide_def exact_ops_def)

lemma np_multiply_exact: "np_multiply_with exact_ops c x = np_multiply c x"
  by (cases c) (simp_all add: np_multiply_with_def np_multiply_def exact_ops_def)

lemma acc_fn_exact: "acc_fn G M r = acc_fn_with exact_ops G M r"
proof -
  have "op_norm exact_ops = norm2" "op_cube exact_ops = (\<lambda>x. x ^ 3)" "op_mul exact_ops G M = G * M"
    by (simp_all add: exact_ops_def)
  then show ?thesis
    by (simp add: acc_fn_def acc_fn_with_def np_divide_exact np_multiply_exact Let_def)
qed

text \<open>
  At the origin the result is \<open>(nan, nan)\<close> for all operations under which the norm of
  the zero vector and the cube of zero are zero, as they are in float64.
\<close>

lemma acc_fn_with_origin:
  assumes "op_norm ops (0, 0) = 0" and "op_cube ops 0 = 0"
  shows "acc_fn_with ops G M (0, 0) = Inr (NaN, NaN)"
proof -
  consider "0 < op_mul ops G M" | "op_mul ops G M < 0" | "op_mul ops G M = 0" by linarith
  then show ?thesis
    by cases
      (simp_all add: acc_fn_with_def Let_def assms np_divide_with_def np_negative_def
        np_multiply_with_def)
qed

subsection \<open>Positions of positive norm\<close>

text \<open>
  Claim C4. For every position \<open>r\<close> of strictly positive norm, the function that
  \<open>create_acceleration_fn(G, M)\<close> returns is to yield exactly \<open>-(G * M / |r|^3) * r\<close>.
  The code: at \<open>r = (2^-400, 0)\<close> with \<open>G = M = 1\<close> the norm is \<open>2^-400\<close>, positive,
  but \<open>norm**3\<close> underflows to zero; the quotient is \<open>inf\<close> and the function returns
  \<open>(-inf, nan)\<close>, not \<open>(-2^800, 0)\<close>.
\<close>

theorem acc_fn_underflow_counterexample:
  "0 < norm2 (1 / 2 ^ 400, 0)
   \<and> create_acceleration_fn_with underflow_ops 1 1 (1 / 2 ^ 400, 0) = Inr (NegInf, NaN)"
proof -
  have n: "norm2 (1 / 2 ^ 400, 0) = 1 / 2 ^ 400" by (simp add: norm2_def)
  have "(1 / 2 ^ 400 :: real) ^ 3 = 1 / 2 ^ 1200" by (simp add: power_divide flip: power_mult)
  moreover have "(1 / 2 ^ 1200 :: real) < 1 / 2 ^ 1075"
    by (simp add: frac_less2)
  ultimately have u: "op_cube underflow_ops (1 / 2 ^ 400) = 0"
    by (simp add: underflow_ops_def)
  have o: "op_norm underflow_ops = norm2" "op_mul underflow_ops 1 1 = 1"
    by (simp_all add: underflow_ops_def)
  show ?thesis
    unfolding create_acceleration_fn_with_def acc_fn_with_def Let_def o n u
    by (simp add: np_divide_with_def np_negative_def np_multiply_with_def)
qed

text \<open>
  Claim C4, as the code has it. For every position \<open>r\<close> at which the computed
  \<open>norm**3\<close> is not zero, and whatever the float64 operations compute, the function that
  \<open>create_acceleration_fn(G, M)\<close> returns yields \<open>-(G * M / norm**3) * r\<close> as these
  operations evaluate it, where \<open>norm\<close> is the computed norm of \<open>r\<close>: the negated quotient,
  which may be an infinity, times each entry of \<open>r\<close>. It raises nothing and is a function
  of \<open>r\<close>, \<open>G\<close> and \<open>M\<close> alone.
\<close>

theorem acc_fn_with_formula:
  assumes "op_cube ops (op_norm ops r) \<noteq> 0"
  shows "create_acceleration_fn_with ops G M r =
           (let c = np_negative (op_div ops (op_mul ops G M) (op_cube ops (op_norm ops r)))
            in Inr (np_multiply_with ops c (fst r), np_multiply_with ops c (snd r)))"
  using assms
  by (simp add: create_acceleration_fn_with_def acc_fn_with_def np_divide_with_def Let_def)

theorem acc_fn_with_formula_witness:
  "op_cube exact_ops (op_norm exact_ops (2, 0)) \<noteq> 0
   \<and> create_acceleration_fn_with exact_ops 4 2 (2, 0) = Inr (Finite (- 2), Finite 0)"
proof -
  have n: "op_norm exact_ops (2, 0) = 2" by (simp add: exact_ops_def norm2_def)
  have c: "op_cube exact_ops 2 = 8" by (simp add: exact_ops_def)
  have h: "op_cube exact_ops (op_norm exact_ops (2, 0)) \<noteq> 0" unfolding n c by simp
  have d: "op_div exact_ops (op_mul exact_ops 4 2) 8 = Finite 1"
    by (simp add: exact_ops_def)
  have t: "np_multiply_with exact_ops (Finite (- 1)) 2 = Finite (- 2)"
    "np_multiply_with exact_ops (Finite (- 1)) 0 = Finite 0"
    by (simp_all add: np_multiply_with_def exact_ops_def)
  show ?thesis
    using h acc_fn_with_formula [OF h, of 4 2]
    unfolding n c d by (simp add: np_negative_def t)
qed

subsection \<open>The position of zero norm\<close>

text \<open>
  Claim C8. For a position of zero norm, evaluating the acceleration is to be a fatal
  division-by-zero error that reaches the caller as a failure. The code: at the origin,
  with the constants of \<open>main.py\<close>, the evaluation returns a value, the vector
  \<open>(nan, nan)\<close>; no exception is raised.
\<close>

theorem acc_fn_zero_norm_returns_nan:
  "create_acceleration_fn (6.6743 / 10 ^ 11) (1.989 * 10 ^ 30) (0, 0) = Inr (NaN, NaN)"
  by (simp add: create_acceleration_fn_def acc_fn_def Let_def norm2_def np_divide_def
      np_negative_def np_multiply_def)

text \<open>
  Claim C8, as the code has it. For every position of zero norm and all constants
  \<open>G\<close> and \<open>M\<close>, the acceleration function raises nothing and returns the vector
  \<open>(nan, nan)\<close> as an ordinary value.
\<close>

theorem acc_fn_zero_norm:
  assumes "norm2 r = 0"
  shows "create_acceleration_fn G M r = Inr (NaN, NaN)"
proof -
  from assms have r: "r = (0, 0)" by (simp add: norm2_zero_iff)
  consider "0 < G * M" | "G * M < 0" | "G * M = 0" by linarith
  then show ?thesis
    by cases
      (simp_all add: r create_acceleration_fn_def acc_fn_def Let_def norm2_def np_divide_def
        np_negative_def np_multiply_def)
qed

theorem acc_fn_zero_norm_witness:
  "norm2 (0, 0) = 0 \<and> create_acceleration_fn 1 1 (0, 0) = Inr (NaN, NaN)"
proof -
  have h: "norm2 (0, 0) = 0" by (simp add: norm2_def)
  show ?thesis using h acc_fn_zero_norm [OF h, of 1 1] by simp
qed

section \<open>The aphelion sample\<close>

subsection \<open>\<open>argmax\<close> finds the first largest entry\<close>

lemma argmax_scan_first:
  assumes "length pre = i" and "bi < i" and "pre ! bi = b"
    and "\<forall>j<i. pre ! j \<le> b" and "\<forall>j<bi. pre ! j < b"
  shows "is_first_argmax (pre @ ys) (argmax_scan ys i bi b)"
  using assms
proof (induction ys arbitrary: pre i bi b)
  case Nil
  then show ?case by (simp add: is_first_argmax_def)
next
  case (Cons y ys)
  show ?case
  proof (cases "b < y")
    case True
    have "is_first_argmax ((pre @ [y]) @ ys) (argmax_scan ys (Suc i) i y)"
    proof (rule Cons.IH)
      show "length (pre @ [y]) = Suc i" using Cons.prems(1) by simp
      show "i < Suc i" by simp
      show "(pre @ [y]) ! i = y" using Cons.prems(1) by (auto simp: nth_append)
      show "\<forall>j<Suc i. (pre @ [y]) ! j \<le> y"
        using Cons.prems(1,4) True by (auto simp: nth_append less_Suc_eq)
      show "\<forall>j<i. (pre @ [y]) ! j < y"
        using Cons.prems(1,4) True by (auto simp: nth_append)
    qed
    with True show ?thesis by simp
  next
    case False
    have "is_first_argmax ((pre @ [y]) @ ys) (argmax_scan ys (Suc i) bi b)"
    proof (rule Cons.IH)
      show "length (pre @ [y]) = Suc i" using Cons.prems(1) by simp
      show "bi < Suc i" using Cons.prems(2) by simp
      show "(pre @ [y]) ! bi = b" using Cons.prems(1,2,3) by (simp add: nth_append)
      show "\<forall>j<Suc i. (pre @ [y]) ! j \<le> b"
        using Cons.prems(1,4) False by (auto simp: nth_append less_Suc_eq)
      show "\<forall>j<bi. (pre @ [y]) ! j < b"
        using Cons.prems(1,2,5) by (auto simp: nth_append)
    qed
    with False show ?thesis by simp
  qed
qed

lemma argmax_nonempty:
  assumes "xs \<noteq> []"
  shows "\<exists>k. argmax xs = Inr k \<and> is_first_argmax xs k"
proof (cases xs)
  case Nil
  with assms show ?thesis by simp
next
  case (Cons x ys)
  have "is_first_argmax ([x] @ ys) (argmax_scan ys 1 0 x)"
    by (rule argmax_scan_first) simp_all
  with Cons show ?thesis by (simp add: argmax_def)
qed

lemma is_first_argmax_unique:
  assumes "is_first_argmax xs k" and "is_first_argmax xs k'"
  shows "k = k'"
proof (rule ccontr)
  assume "k \<noteq> k'"
  then consider "k < k'" | "k' < k" by linarith
  then show False
  proof cases
    case 1
    with assms have "xs ! k < xs ! k'" "xs ! k' \<le> xs ! k"
      by (auto simp: is_first_argmax_def)
    then show False by simp
  next
    case 2
    with assms have "xs ! k' < xs ! k" "xs ! k \<le> xs ! k'"
      by (auto simp: is_first_argmax_def)
    then show False by simp
  qed
qed

subsection \<open>The cutoff of the fallback search\<close>

lemma cutoff_div: "nat \<lfloor>real n * 0.05\<rfloor> = n div 20"
proof -
  have "real n * 0.05 = real n / real 20" by simp
  then show ?thesis by (simp only: floor_divide_of_nat_eq nat_int)
qed

lemma cutoff_bounds:
  assumes "2 \<le> n"
  shows "1 \<le> max 1 (nat \<lfloor>real n * 0.05\<rfloor>)" and "max 1 (nat \<lfloor>real n * 0.05\<rfloor>) < n"
  using assms unfolding cutoff_div by simp_all

subsection \<open>The selected sample\<close>

lemma compute_aphelion_exact: "compute_aphelion r v = compute_aphelion_with norm2 r v"
  by (simp add: compute_aphelion_def compute_aphelion_with_def)

lemma compute_aphelion_with_unfold:
  assumes "2 \<le> length r" and "length v = length r"
    and c: "c = max 1 (nat \<lfloor>real (length r) * 0.05\<rfloor>)"
  shows "\<exists>k0 idx.
           is_first_argmax (map linalg_norm r) k0
           \<and> (k0 = 0 \<longrightarrow> c \<le> idx \<and> is_first_argmax (drop c (map linalg_norm r)) (idx - c))
           \<and> (k0 \<noteq> 0 \<longrightarrow> idx = k0)
           \<and> idx < length r
           \<and> compute_aphelion_with linalg_norm r v = Inr (linalg_norm (r ! idx), v ! idx, idx)"
proof -
  let ?ds = "map linalg_norm r"
  from assms(1) have "?ds \<noteq> []" by auto
  then obtain k0 where k0: "argmax ?ds = Inr k0" "is_first_argmax ?ds k0"
    using argmax_nonempty by blast
  show ?thesis
  proof (cases "k0 = 0")
    case True
    have cn: "c < length r" using cutoff_bounds(2) [OF assms(1)] c by simp
    then have "drop c ?ds \<noteq> []" by simp
    then obtain j where j: "argmax (drop c ?ds) = Inr j" "is_first_argmax (drop c ?ds) j"
      using argmax_nonempty by blast
    from j(2) have "j < length r - c" by (simp add: is_first_argmax_def)
    with cn have lt: "j + c < length r" by linarith
    have "compute_aphelion_with linalg_norm r v =
            Inr (linalg_norm (r ! (j + c)), v ! (j + c), j + c)"
      unfolding compute_aphelion_with_def Let_def c [symmetric]
      using k0(1) True j(1) lt assms(2) by (simp add: getitem_def)
    moreover have "is_first_argmax (drop c ?ds) ((j + c) - c)" using j(2) by simp
    ultimately show ?thesis using k0 True lt
      by (intro exI [of _ k0] exI [of _ "j + c"]) simp
  next
    case False
    from k0(2) have lt: "k0 < length r" by (simp add: is_first_argmax_def)
    have "compute_aphelion_with linalg_norm r v = Inr (linalg_norm (r ! k0), v ! k0, k0)"
      unfolding compute_aphelion_with_def Let_def
      using k0(1) False lt assms(2) by (simp add: getitem_def)
    then show ?thesis using k0 False lt
      by (intro exI [of _ k0]) simp
  qed
qed

lemma compute_aphelion_unfold:
  assumes "2 \<le> length r" and "length v = length r"
    and c: "c = max 1 (nat \<lfloor>real (length r) * 0.05\<rfloor>)"
  shows "\<exists>k0 idx.
           is_first_argmax (map norm2 r) k0
           \<and> (k0 = 0 \<longrightarrow> c \<le> idx \<and> is_first_argmax (drop c (map norm2 r)) (idx - c))
           \<and> (k0 \<noteq> 0 \<longrightarrow> idx = k0)
           \<and> idx < length r
           \<and> compute_aphelion r v = Inr (norm2 (r ! idx), v ! idx, idx)"
  unfolding compute_aphelion_exact
  by (rule compute_aphelion_with_unfold [OF assms])

text \<open>
  Claim C5. For every completed trajectory \<open>(r, v)\<close> of \<open>N \<ge> 2\<close> samples,
  \<open>compute_aphelion\<close> takes the argmax of the distances, the norms of all position
  samples as \<open>np.linalg.norm\<close> computes them; exactly when that argmax is sample 0, it
  searches again over the samples from index \<open>max(1, floor(0.05 * N))\<close> on, which leaves
  out at least one sample, and shifts the argmax found there back by the cutoff; it
  returns the computed distance, the velocity vector and the index of the sample
  selected.
\<close>

theorem compute_aphelion_with_result:
  assumes "2 \<le> length r" and "length v = length r"
  shows "\<exists>idx. compute_aphelion_with linalg_norm r v = Inr (linalg_norm (r ! idx), v ! idx, idx)
           \<and> idx < length r
           \<and> (let distances = map linalg_norm r;
                   cutoff = max 1 (nat \<lfloor>real (length r) * 0.05\<rfloor>)
               in 1 \<le> cutoff
                  \<and> (if is_first_argmax distances 0
                     then cutoff \<le> idx \<and> is_first_argmax (drop cutoff distances) (idx - cutoff)
                     else is_first_argmax distances idx))"
proof -
  define c where "c = max 1 (nat \<lfloor>real (length r) * 0.05\<rfloor>)"
  obtain k0 idx where
    k0: "is_first_argmax (map linalg_norm r) k0"
    and zero: "k0 = 0 \<longrightarrow> c \<le> idx \<and> is_first_argmax (drop c (map linalg_norm r)) (idx - c)"
    and nonzero: "k0 \<noteq> 0 \<longrightarrow> idx = k0"
    and res: "idx < length r"
      "compute_aphelion_with linalg_norm r v = Inr (linalg_norm (r ! idx), v ! idx, idx)"
    using compute_aphelion_with_unfold [OF assms c_def] by blast
  have "is_first_argmax (map linalg_norm r) 0 \<longleftrightarrow> k0 = 0"
    using k0 is_first_argmax_unique by blast
  moreover have "1 \<le> c" by (simp add: c_def)
  ultimately show ?thesis
    using k0 zero nonzero res
    unfolding Let_def c_def [symmetric] by (intro exI [of _ idx]) auto
qed

text \<open>
  Two runs of it. At the rows \<open>(1, 0)\<close>, \<open>(3, 4)\<close>, \<open>(5, 1e-9)\<close> float64 computes the
  distances 1, 5, 5 (the square of \<open>1e-9\<close> is lost in the sum): the first largest is
  sample 1. At the rows \<open>(3, 0)\<close>, \<open>(1, 0)\<close>, \<open>(2, 0)\<close> the distances 3, 1, 2 are exact, the
  argmax is sample 0 and the search from the cutoff 1 on selects sample 2.
\<close>

theorem compute_aphelion_with_result_witness:
  "2 \<le> length [(1, 0), (3, 4), (5, 1 / 10 ^ 9) :: vec]
   \<and> length [(0, 1), (0, 2), (0, 3) :: vec] = length [(1, 0), (3, 4), (5, 1 / 10 ^ 9) :: vec]
   \<and> compute_aphelion_with (\<lambda>p. if p = (1, 0) then 1 else 5)
         [(1, 0), (3, 4), (5, 1 / 10 ^ 9)] [(0, 1), (0, 2), (0, 3)] = Inr (5, (0, 2), 1)
   \<and> 2 \<le> length [(3, 0), (1, 0), (2, 0) :: vec]
   \<and> length [(0, 1), (0, 2), (0, 3) :: vec] = length [(3, 0), (1, 0), (2, 0) :: vec]
   \<and> is_first_argmax (map norm2 [(3, 0), (1, 0), (2, 0)]) 0
   \<and> compute_aphelion_with norm2 [(3, 0), (1, 0), (2, 0)] [(0, 1), (0, 2), (0, 3)] =
       Inr (2, (0, 3), 2)"
proof -
  let ?f = "\<lambda>p :: vec. if p = (1, 0) then 1 else (5 :: real)"
  let ?q = "[(1, 0), (3, 4), (5, 1 / 10 ^ 9) :: vec]"
  let ?r = "[(3, 0), (1, 0), (2, 0) :: vec]"
  let ?v = "[(0, 1), (0, 2), (0, 3) :: vec]"
  have g1: "2 \<le> length ?q" by simp
  have g2: "length ?v = length ?q" by simp
  have fs: "map ?f ?q = [1, 5, 5]" by simp
  have nz: "\<not> is_first_argmax (map ?f ?q) 0"
    unfolding fs by (auto simp: is_first_argmax_def)
  obtain i where
    resq: "compute_aphelion_with ?f ?q ?v = Inr (?f (?q ! i), ?v ! i, i)"
    and selq: "is_first_argmax (map ?f ?q) i"
    using compute_aphelion_with_result [OF g1 g2, of ?f] nz unfolding Let_def by auto
  have "is_first_argmax [1, 5, 5] 1" by (simp add: is_first_argmax_def less_Suc_eq)
  with selq have "i = 1" unfolding fs by (rule is_first_argmax_unique)
  with resq have first: "compute_aphelion_with ?f ?q ?v = Inr (5, (0, 2), 1)" by simp
  have h1: "2 \<le> length ?r" by simp
  have h2: "length ?v = length ?r" by simp
  have ds: "map norm2 ?r = [3, 1, 2]" by (simp add: norm2_axis)
  have z: "is_first_argmax (map norm2 ?r) 0"
    unfolding ds by (simp add: is_first_argmax_def less_Suc_eq)
  have c: "max 1 (nat \<lfloor>real (length ?r) * 0.05\<rfloor>) = 1" by simp
  obtain idx where
    res: "compute_aphelion_with norm2 ?r ?v = Inr (norm2 (?r ! idx), ?v ! idx, idx)"
    and sel: "1 \<le> idx \<and> is_first_argmax (drop 1 (map norm2 ?r)) (idx - 1)"
    using compute_aphelion_with_result [OF h1 h2, of norm2] z unfolding Let_def c by auto
  from sel have "is_first_argmax [1, 2] (idx - 1)" unfolding ds by simp
  moreover have "is_first_argmax [1, 2] 1" by (simp add: is_first_argmax_def less_Suc_eq)
  ultimately have "idx - 1 = 1" by (rule is_first_argmax_unique)
  with sel have "idx = 2" by simp
  with res have "compute_aphelion_with norm2 ?r ?v = Inr (2, (0, 3), 2)"
    by (simp add: norm2_axis)
  with g1 g2 first h1 h2 z show ?thesis by blast
qed

text \<open>
  Claim C10. For every trajectory of at least 2 position samples, an index that
  \<open>compute_aphelion\<close> returns is at least 1 (and inside the trajectory), never 0; and
  with a velocity buffer of the same length it does return one.
\<close>

theorem compute_aphelion_index_positive:
  assumes "2 \<le> length r"
  shows "(\<forall>d vel idx. compute_aphelion r v = Inr (d, vel, idx) \<longrightarrow> 1 \<le> idx \<and> idx < length r)
         \<and> (length v = length r \<longrightarrow> (\<exists>d vel idx. compute_aphelion r v = Inr (d, vel, idx)))"
proof (intro conjI allI impI)
  fix d vel idx
  assume ret: "compute_aphelion r v = Inr (d, vel, idx)"
  define c where "c = max 1 (nat \<lfloor>real (length r) * 0.05\<rfloor>)"
  let ?ds = "map norm2 r"
  have c1: "1 \<le> c" by (simp add: c_def)
  from assms have "?ds \<noteq> []" by auto
  then obtain k0 where k0: "argmax ?ds = Inr k0" "is_first_argmax ?ds k0"
    using argmax_nonempty by blast
  show "1 \<le> idx"
  proof (cases "k0 = 0")
    case True
    from ret have "\<exists>j. idx = j + c"
      unfolding compute_aphelion_def Let_def c_def [symmetric]
      using k0(1) True by (auto split: sum.splits)
    with c1 show ?thesis by auto
  next
    case False
    from ret have "idx = k0"
      unfolding compute_aphelion_def Let_def
      using k0(1) False by (auto split: sum.splits)
    with False show ?thesis by simp
  qed
  from ret show "idx < length r"
    unfolding compute_aphelion_def Let_def
    by (auto simp: getitem_def split: sum.splits if_splits)
next
  assume "length v = length r"
  with assms show "\<exists>d vel idx. compute_aphelion r v = Inr (d, vel, idx)"
    using compute_aphelion_unfold [OF assms _ refl] by blast
qed

theorem compute_aphelion_index_positive_witness:
  "2 \<le> length [(1, 0), (2, 0) :: vec]
   \<and> compute_aphelion [(1, 0), (2, 0)] [(0, 2), (0, 1)] = Inr (2, (0, 1), 1)
   \<and> (1 :: nat) \<le> 1 \<and> 1 < length [(1, 0), (2, 0) :: vec]"
proof -
  let ?r = "[(1, 0), (2, 0) :: vec]"
  let ?v = "[(0, 2), (0, 1) :: vec]"
  have h: "2 \<le> length ?r" by simp
  have e: "compute_aphelion ?r ?v = Inr (2, (0, 1), 1)"
    by (simp add: compute_aphelion_def norm2_axis argmax_def getitem_def)
  have "1 \<le> (1 :: nat) \<and> 1 < length ?r"
    using compute_aphelion_index_positive [OF h, of ?v, THEN conjunct1, rule_format, OF e] .
  with h e show ?thesis by blast
qed

text \<open>
  Claim C7. For every trajectory of fewer than 2 samples (\<open>N = 0\<close> or \<open>N = 1\<close>),
  \<open>compute_aphelion\<close> fails with an error, whatever the velocity buffer holds: the
  error is raised by an argmax over an empty sequence, before \<open>distances[idx_ap]\<close>
  and \<open>v[idx_ap]\<close> are read.
\<close>

theorem compute_aphelion_short:
  assumes "length r < 2"
  shows "compute_aphelion r v = Inl (ValueError ''attempt to get argmax of an empty sequence'')"
proof -
  from assms consider "r = []" | "\<exists>x. r = [x]"
    by (cases r) (auto simp: length_Suc_conv)
  then show ?thesis
  proof cases
    case 1
    then show ?thesis by (simp add: compute_aphelion_def argmax_def)
  next
    case 2
    then obtain x where "r = [x]" by blast
    then show ?thesis by (simp add: compute_aphelion_def argmax_def Let_def)
  qed
qed

theorem compute_aphelion_short_witness:
  "length [(1, 0) :: vec] < 2
   \<and> compute_aphelion [(1, 0)] [] =
       Inl (ValueError ''attempt to get argmax of an empty sequence'')"
proof -
  have h: "length [(1, 0) :: vec] < 2" by simp
  show ?thesis by (intro conjI h compute_aphelion_short [OF h])
qed

section \<open>The number of samples of a run\<close>

lemma arange_with_length:
  assumes "step \<noteq> 0"
  shows "\<exists>t. arange_with truediv start stop step = Inr t
           \<and> length t = nat \<lceil>truediv (stop - start) step\<rceil>"
  using assms by (simp add: arange_with_def)

text \<open>The functions over the exact product and quotient are an instance.\<close>

lemma arange_exact: "arange start stop step = arange_with (\<lambda>x y. x / y) start stop step"
  by (simp add: arange_def arange_with_def)

lemma get_time_settings_exact:
  "get_time_settings cfg planet_cfg =
     get_time_settings_with (\<lambda>x y. x * y) (\<lambda>x y. x / y) cfg planet_cfg"
  unfolding get_time_settings_def get_time_settings_with_def arange_exact ..

lemma allocate_run_exact:
  "allocate_run cfg planet_cfg r0 v0 =
     allocate_run_with (\<lambda>x y. x * y) (\<lambda>x y. x / y) cfg planet_cfg r0 v0"
  unfolding allocate_run_def allocate_run_with_def get_time_settings_exact ..

text \<open>
  Claim C9. For every positive time step and every positive simulated duration, the
  buffers of a run are to have \<open>N = floor(total_simulated_time / time_step)\<close> samples.
  The code: one simulated day (86400 s) at a time step of 50000 s gives the time grid
  \<open>[0, 50000]\<close> and buffers of 2 samples, while the floor of \<open>86400 / 50000\<close> is 1.
\<close>

theorem allocate_run_length_counterexample:
  "allocate_run
     \<lparr>numerical_method_settings = Some [''time_step'' \<mapsto> 50000], default_simulation_days = None\<rparr>
     \<lparr>orbital_period_days = Some 1\<rparr> (1, 0) (0, 1) =
     Inr (50000, [0, 50000], [(1, 0), (0, 0)], [(0, 1), (0, 0)])
   \<and> nat \<lfloor>(1 * 24 * 3600 / 50000 :: real)\<rfloor> = 1"
proof -
  have c: "nat \<lceil>(86400 / 50000 :: real)\<rceil> = 2" by simp
  have u: "[0..<2] = [0, 1]" by (simp add: upt_conv_Cons)
  have "get_time_settings
     \<lparr>numerical_method_settings = Some [''time_step'' \<mapsto> 50000], default_simulation_days = None\<rparr>
     \<lparr>orbital_period_days = Some 1\<rparr> = Inr (50000, [0, 50000])"
    by (simp add: get_time_settings_def time_step_of_def sim_days_of_def arange_def c u)
  then show ?thesis
    by (simp add: allocate_run_def initialize_arrays_def setitem_def Let_def)
qed

text \<open>
  Claim C9, as the code has it. For every positive time step and every simulated
  duration at which the computed quotient \<open>total_simulated_time / time_step\<close> is
  positive, the time grid and both buffers of a run have exactly
  \<open>N = ceil(total_simulated_time / time_step)\<close> samples, where the total simulated time is
  the simulated days times 24 times 3600 seconds and both products and the quotient are
  the numbers that Python computes (in float64 on floats).
\<close>

theorem allocate_run_with_length:
  assumes "time_step_of cfg = Inr dt" and "0 < dt"
    and "0 < truediv (mul (mul (sim_days_of cfg planet_cfg) 24) 3600) dt"
  shows "\<exists>t r v. allocate_run_with mul truediv cfg planet_cfg r0 v0 = Inr (dt, t, r, v)
           \<and> length t = nat \<lceil>truediv (mul (mul (sim_days_of cfg planet_cfg) 24) 3600) dt\<rceil>
           \<and> length r = length t \<and> length v = length t"
proof -
  let ?t_max = "mul (mul (sim_days_of cfg planet_cfg) 24) 3600"
  from assms(2) obtain t where t: "arange_with truediv 0 ?t_max dt = Inr t"
    and len: "length t = nat \<lceil>truediv (?t_max - 0) dt\<rceil>"
    using arange_with_length [of dt truediv 0 ?t_max] by auto
  have gts: "get_time_settings_with mul truediv cfg planet_cfg = Inr (dt, t)"
    using assms(1) t by (simp add: get_time_settings_with_def Let_def)
  from assms(3) have "0 < \<lceil>truediv ?t_max dt\<rceil>" by linarith
  with len have "t \<noteq> []" by auto
  then show ?thesis
    using gts len initialize_arrays_nonempty [of t r0 v0]
    by (simp add: allocate_run_with_def)
qed

text \<open>
  The default configuration: 365 days at 3600 s, where every product and the quotient
  are exact, gives 8760 samples.
\<close>

theorem allocate_run_with_length_witness:
  "time_step_of \<lparr>numerical_method_settings = None, default_simulation_days = None\<rparr> = Inr 3600
   \<and> 0 < (3600 :: real)
   \<and> 0 < (sim_days_of \<lparr>numerical_method_settings = None, default_simulation_days = None\<rparr>
           \<lparr>orbital_period_days = None\<rparr> * 24 * 3600) / 3600
   \<and> (\<exists>t r v. allocate_run_with (\<lambda>x y. x * y) (\<lambda>x y. x / y)
                  \<lparr>numerical_method_settings = None, default_simulation_days = None\<rparr>
                  \<lparr>orbital_period_days = None\<rparr> (1, 0) (0, 1) = Inr (3600, t, r, v)
          \<and> length t = 8760 \<and> length r = 8760 \<and> length v = 8760)"
proof -
  let ?cfg = "\<lparr>numerical_method_settings = None, default_simulation_days = None\<rparr>"
  let ?p = "\<lparr>orbital_period_days = None\<rparr>"
  have h1: "time_step_of ?cfg = Inr 3600" by (simp add: time_step_of_def)
  have h2: "0 < (3600 :: real)" by simp
  have d: "sim_days_of ?cfg ?p = 365" by (simp add: sim_days_of_def)
  then have h3: "0 < (sim_days_of ?cfg ?p * 24 * 3600) / 3600" by simp
  have n: "nat \<lceil>(sim_days_of ?cfg ?p * 24 * 3600) / 3600\<rceil> = 8760" unfolding d by simp
  show ?thesis
    using h1 h2 h3
      allocate_run_with_length [of ?cfg 3600 "\<lambda>x y. x / y" "\<lambda>x y. x * y" ?p "(1, 0)" "(0, 1)",
        OF h1 h2 h3]
    unfolding n by auto
qed

end
